theory Spec2Isabelle
  imports Main "HOL-Library.Sublist"
begin

section \<open>The RCON dashboard: session model and event dispatcher\<close>

text \<open>
  A shallow embedding of \<^verbatim>\<open>main.go\<close>: the configuration record, the session model,
  the two command executors and the \<^verbatim>\<open>Update\<close> reducer of the terminal dashboard.
  Go strings are byte strings, so they are \<^typ>\<open>string\<close> here, and the three
  pictographs the program prints are written out as their UTF-8 bytes.

  The repository also holds an earlier revision of the same file, from before the
  container keys were added. \<^verbatim>\<open>pushLog\<close>, \<^verbatim>\<open>activeServer\<close>, \<^verbatim>\<open>initialModel\<close> and
  the tab, enter and RCON-result branches of \<^verbatim>\<open>Update\<close> are the same text in both.
\<close>

subsection \<open>Configuration and messages\<close>

text \<open>\<^verbatim>\<open>type serverConfig struct { Name, Address, Password, Container string }\<close>\<close>

record serverConfig =
  Name :: string
  Address :: string
  Password :: string
  Container :: string

text \<open>
  A Go \<^verbatim>\<open>error\<close> is either \<^verbatim>\<open>nil\<close> or a value that prints as a message under
  \<^verbatim>\<open>%v\<close>: \<open>None\<close> is \<^verbatim>\<open>nil\<close>, \<open>Some e\<close> an error whose text is \<open>e\<close>.
\<close>

type_synonym goerror = "string option"

record rconResultMsg =
  r_serverName :: string
  r_cmd :: string
  r_output :: string
  r_err :: goerror

record dockerResultMsg =
  d_serverName :: string
  d_action :: string
  d_output :: string
  d_err :: goerror

text \<open>
  The messages \<^verbatim>\<open>Update\<close> switches on. A key press is represented by its
  \<^verbatim>\<open>msg.String()\<close> rendering; \<open>OtherMsg\<close> stands for every message type that
  \<^verbatim>\<open>Update\<close> has no case for (cursor blink, mouse, ...), told apart by a number.
\<close>

datatype msg =
  WindowSizeMsg int int
| KeyMsg string
| RconResult rconResultMsg
| DockerResult dockerResultMsg
| OtherMsg nat

text \<open>
  The commands \<^verbatim>\<open>Update\<close> returns. \<open>NoCmd\<close> is \<^verbatim>\<open>nil\<close>; \<open>SendRCONCmd s c\<close> and
  \<open>DockerActionCmd s a\<close> are the closures built by \<^verbatim>\<open>sendRCONCmd(s, c)\<close> and
  \<^verbatim>\<open>dockerAction(s, a)\<close>, kept with the arguments they capture; \<open>Batch\<close> is
  \<^verbatim>\<open>tea.Batch(cmdInput, cmdList)\<close> of the two widgets' own commands.
\<close>

datatype cmd =
  NoCmd
| Quit
| SendRCONCmd serverConfig string
| DockerActionCmd serverConfig string
| Batch

subsection \<open>Widgets\<close>

text \<open>
  Modelled from the spec: the selectable list and the text area are widgets of an
  external library and are not under src/. The spec's session state has a
  \<open>selectionIndex\<close> that select-next advances as \<open>(index+1) mod count\<close>, and a typed
  line that submit-command reads. The list is therefore its items with a cursor, the
  text area its current text; their sizes only matter to rendering and are left out.
  The cursor is never negative, so it is a \<^typ>\<open>nat\<close>.
\<close>

record listModel =
  l_items :: "serverConfig list"
  l_cursor :: nat

record inputModel =
  ta_value :: string

definition l_Items :: "listModel \<Rightarrow> serverConfig list" where
  "l_Items l = l_items l"

definition l_Index :: "listModel \<Rightarrow> nat" where
  "l_Index l = l_cursor l"

definition l_Select :: "nat \<Rightarrow> listModel \<Rightarrow> listModel" where
  "l_Select idx l = l\<lparr>l_cursor := idx\<rparr>"

text \<open>The selected item is absent (\<^verbatim>\<open>nil\<close>) when the cursor is past the last item.\<close>

definition l_SelectedItem :: "listModel \<Rightarrow> serverConfig option" where
  "l_SelectedItem l =
     (let i = l_Index l; its = l_items l
      in if length its = 0 \<or> length its \<le> i then None else Some (its ! i))"

definition ta_Value :: "inputModel \<Rightarrow> string" where
  "ta_Value t = ta_value t"

definition ta_Reset :: "inputModel \<Rightarrow> inputModel" where
  "ta_Reset t = t\<lparr>ta_value := []\<rparr>"

text \<open>
  What \<^verbatim>\<open>Update\<close> takes from outside: the clock read by \<^verbatim>\<open>time.Now()\<close>, and the
  widgets' own reaction to a forwarded message: the list moves its cursor, the text area
  edits its text. Both reactions are arbitrary functions here.
\<close>

record env =
  now :: nat
  listUpdate :: "listModel \<Rightarrow> msg \<Rightarrow> nat"
  inputUpdate :: "inputModel \<Rightarrow> msg \<Rightarrow> string"

subsection \<open>The session model\<close>

record model =
  list_w :: listModel
  input_w :: inputModel
  logLines :: "string list"
  activeName :: string
  width :: int
  height :: int
  quitting :: bool
  statusLine :: string
  statusTimer :: nat
  servers :: "serverConfig list"

text \<open>The pictographs of the log lines, as the UTF-8 bytes of the source file.\<close>

definition warnSign :: string where
  "warnSign = [CHR 0xE2, CHR 0x9A, CHR 0xA0, CHR 0xEF, CHR 0xB8, CHR 0x8F]"

definition crossMark :: string where
  "crossMark = [CHR 0xE2, CHR 0x9D, CHR 0x8C]"

definition whale :: string where
  "whale = [CHR 0xF0, CHR 0x9F, CHR 0x90, CHR 0xB3]"

text \<open>
  \<^verbatim>\<open>activeServer\<close> returns \<^verbatim>\<open>nil\<close> for the empty name, else the first registry entry
  of that name, else \<^verbatim>\<open>nil\<close>.
\<close>

definition activeServer :: "model \<Rightarrow> serverConfig option" where
  "activeServer m =
     (if activeName m = [] then None
      else find (\<lambda>s. Name s = activeName m) (servers m))"

text \<open>
  \<^verbatim>\<open>pushLog\<close> appends the line and, when the slice has grown beyond \<^verbatim>\<open>maxLines\<close>,
  re-slices it to \<^verbatim>\<open>logLines[len(logLines)-maxLines:]\<close>.
\<close>

definition maxLines :: nat where
  "maxLines = 500"

definition pushLog :: "string \<Rightarrow> model \<Rightarrow> model" where
  "pushLog line m =
     (let m1 = m\<lparr>logLines := logLines m @ [line]\<rparr>
      in if length (logLines m1) > maxLines
         then m1\<lparr>logLines := drop (length (logLines m1) - maxLines) (logLines m1)\<rparr>
         else m1)"

text \<open>Appending a sequence of lines, one \<^verbatim>\<open>pushLog\<close> call after the other.\<close>

fun pushAll :: "string list \<Rightarrow> model \<Rightarrow> model" where
  "pushAll [] m = m"
| "pushAll (x # xs) m = pushAll xs (pushLog x m)"

definition setStatus :: "env \<Rightarrow> string \<Rightarrow> model \<Rightarrow> model" where
  "setStatus e s m = m\<lparr>statusLine := s, statusTimer := now e\<rparr>"

definition initialModel :: "serverConfig list \<Rightarrow> model" where
  "initialModel srvs =
     (let m = \<lparr>list_w = \<lparr>l_items = srvs, l_cursor = 0\<rparr>,
                input_w = \<lparr>ta_value = []\<rparr>,
                logLines = [''Ready.''],
                activeName = [],
                width = 0, height = 0, quitting = False,
                statusLine = [], statusTimer = 0,
                servers = srvs\<rparr>
      in if length srvs > 0
         then (let m1 = m\<lparr>activeName := Name (srvs ! 0)\<rparr>;
                   m2 = m1\<lparr>list_w := l_Select 0 (list_w m1)\<rparr>
               in pushLog (''Active server: '' @ activeName m2) m2)
         else pushLog (warnSign @ '' No servers configured. Please check config.yaml'') m)"

subsection \<open>Command executors\<close>

text \<open>
  The external process runner, \<^verbatim>\<open>exec.Command(name, args...).CombinedOutput()\<close>: from
  the program name and its arguments to the captured output and the error.
\<close>

type_synonym executor = "string \<Rightarrow> string list \<Rightarrow> string \<times> goerror"

text \<open>
  The last lines of \<^verbatim>\<open>dockerAction\<close>: run \<^verbatim>\<open>docker\<close> with the arguments and wrap what
  comes back. Next to the result stands the list of external processes that were run.
\<close>

definition runDocker ::
  "executor \<Rightarrow> serverConfig \<Rightarrow> string \<Rightarrow> string list \<Rightarrow>
     dockerResultMsg \<times> (string \<times> string list) list" where
  "runDocker run s action args =
     (case run ''docker'' args of
        (output, err) \<Rightarrow>
          (\<lparr>d_serverName = Name s, d_action = action, d_output = output, d_err = err\<rparr>,
           [(''docker'', args)]))"

definition dockerAction ::
  "executor \<Rightarrow> serverConfig \<Rightarrow> string \<Rightarrow>
     dockerResultMsg \<times> (string \<times> string list) list" where
  "dockerAction run s action =
     (if Container s = [] then
        (\<lparr>d_serverName = Name s, d_action = action, d_output = [],
          d_err = Some ''no container configured''\<rparr>, [])
      else if action = ''start'' then runDocker run s action [''start'', Container s]
      else if action = ''stop'' then runDocker run s action [''stop'', Container s]
      else if action = ''restart'' then runDocker run s action [''restart'', Container s]
      else if action = ''status'' then
        runDocker run s action [''inspect'', ''--format'', ''{{.State.Status}}'', Container s]
      else
        (\<lparr>d_serverName = Name s, d_action = action, d_output = [],
          d_err = Some (''unknown action: '' @ action)\<rparr>, []))"

text \<open>The external processes a command returned by \<^verbatim>\<open>Update\<close> runs once it is executed.\<close>

fun launched :: "executor \<Rightarrow> cmd \<Rightarrow> (string \<times> string list) list" where
  "launched run (DockerActionCmd s a) = snd (dockerAction run s a)"
| "launched run c = []"

subsection \<open>The dispatcher\<close>

text \<open>
  The four container keys run the same code up to three strings: the words of the log
  line, the status text and the action handed to \<^verbatim>\<open>dockerAction\<close>.
\<close>

definition containerKey :: "env \<Rightarrow> model \<Rightarrow> string \<Rightarrow> string \<Rightarrow> string \<Rightarrow> model \<times> cmd" where
  "containerKey e m doing status action =
     (case activeServer m of
        None \<Rightarrow> (pushLog (crossMark @ '' No active server selected.'') m, NoCmd)
      | Some s \<Rightarrow>
          if Container s = [] then
            (pushLog (''['' @ Name s @ ''] '' @ warnSign @ '' No container configured'') m, NoCmd)
          else
            (setStatus e status
               (pushLog (''['' @ Name s @ ''] '' @ whale @ '' '' @ doing @ '': '' @ Container s) m),
             DockerActionCmd s action))"

text \<open>The code after the switch: the message goes to both widgets.\<close>

definition forward :: "env \<Rightarrow> model \<Rightarrow> msg \<Rightarrow> model \<times> cmd" where
  "forward e m x =
     (let m1 = m\<lparr>input_w := (input_w m)\<lparr>ta_value := inputUpdate e (input_w m) x\<rparr>\<rparr>;
          m2 = m1\<lparr>list_w := (list_w m1)\<lparr>l_cursor := listUpdate e (list_w m1) x\<rparr>\<rparr>
      in (m2, Batch))"

definition keyTab :: "model \<Rightarrow> model \<times> cmd" where
  "keyTab m =
     (let total = length (l_Items (list_w m))
      in if total > 0 then
           (let idx = (l_Index (list_w m) + 1) mod total;
                m1 = m\<lparr>list_w := l_Select idx (list_w m)\<rparr>
            in case l_SelectedItem (list_w m1) of
                 Some it \<Rightarrow>
                   (let m2 = m1\<lparr>activeName := Name it\<rparr>
                    in (pushLog (''Active server: '' @ activeName m2) m2, NoCmd))
               | None \<Rightarrow> (m1, NoCmd))
         else (m, NoCmd))"

definition keyEnter :: "env \<Rightarrow> model \<Rightarrow> model \<times> cmd" where
  "keyEnter e m =
     (let cmdStr = ta_Value (input_w m);
          m1 = m\<lparr>input_w := ta_Reset (input_w m)\<rparr>
      in if cmdStr = [] then (m1, NoCmd)
         else case activeServer m1 of
                None \<Rightarrow> (pushLog (crossMark @ '' No active server selected.'') m1, NoCmd)
              | Some s \<Rightarrow>
                  (setStatus e ''Sending...''
                     (pushLog (''['' @ Name s @ ''] > '' @ cmdStr) m1),
                   SendRCONCmd s cmdStr))"

fun Update :: "env \<Rightarrow> model \<Rightarrow> msg \<Rightarrow> model \<times> cmd" where
  "Update e m (WindowSizeMsg w h) = (m\<lparr>width := w, height := h\<rparr>, NoCmd)"
| "Update e m (KeyMsg k) =
     (if k = ''ctrl+c'' then (m\<lparr>quitting := True\<rparr>, Quit)
      else if k = ''tab'' then keyTab m
      else if k = ''ctrl+s'' then
        containerKey e m ''Starting container'' ''Starting container...'' ''start''
      else if k = ''ctrl+x'' then
        containerKey e m ''Stopping container'' ''Stopping container...'' ''stop''
      else if k = ''ctrl+r'' then
        containerKey e m ''Restarting container'' ''Restarting container...'' ''restart''
      else if k = ''ctrl+d'' then
        containerKey e m ''Checking status'' ''Checking status...'' ''status''
      else if k = ''enter'' then keyEnter e m
      else forward e m (KeyMsg k))"
| "Update e m (RconResult r) =
     (case r_err r of
        Some err \<Rightarrow>
          (setStatus e ''Command failed''
             (pushLog (''['' @ r_serverName r @ ''] '' @ warnSign @ '' ERROR: '' @ err) m),
           NoCmd)
      | None \<Rightarrow>
          (let out = (if r_output r = [] then ''(no response)'' else r_output r)
           in (setStatus e ''OK'' (pushLog (''['' @ r_serverName r @ ''] < '' @ out) m),
               NoCmd)))"
| "Update e m (DockerResult d) =
     (case d_err d of
        Some err \<Rightarrow>
          (setStatus e (''Docker '' @ d_action d @ '' failed'')
             (pushLog (''['' @ d_serverName d @ ''] '' @ whale @ '' ERROR: '' @ err) m),
           NoCmd)
      | None \<Rightarrow>
          (let out = (if d_output d = [] then ''success'' else d_output d)
           in (setStatus e (''Docker '' @ d_action d @ '' OK'')
                 (pushLog (''['' @ d_serverName d @ ''] '' @ whale @ '' '' @ d_action d
                            @ '': '' @ out) m),
               NoCmd)))"
| "Update e m (OtherMsg n) = forward e m (OtherMsg n)"

text \<open>The session after a run of events, each with the environment it was handled in.\<close>

fun run_events :: "model \<Rightarrow> (env \<times> msg) list \<Rightarrow> model" where
  "run_events m [] = m"
| "run_events m ((e, x) # rest) = run_events (fst (Update e m x)) rest"

text \<open>One select-next event, and the session it leaves.\<close>

definition selectNext :: "env \<Rightarrow> model \<Rightarrow> model" where
  "selectNext e m = fst (Update e m (KeyMsg ''tab''))"

subsection \<open>A sample registry\<close>

definition srvA :: serverConfig where
  "srvA = \<lparr>Name = ''A'', Address = ''1.2.3.4:27015'', Password = ''x'', Container = []\<rparr>"

definition srvB :: serverConfig where
  "srvB = \<lparr>Name = ''B'', Address = ''5.6.7.8:27015'', Password = ''y'', Container = ''mc-b''\<rparr>"

definition env0 :: env where
  "env0 = \<lparr>now = 7, listUpdate = (\<lambda>l x. l_cursor l), inputUpdate = (\<lambda>t x. ta_value t)\<rparr>"

definition noExec :: executor where
  "noExec name args = ([], None)"

definition rconOnline :: rconResultMsg where
  "rconOnline = \<lparr>r_serverName = ''A'', r_cmd = ''status'', r_output = ''Online'', r_err = None\<rparr>"

definition rconSilent :: rconResultMsg where
  "rconSilent = \<lparr>r_serverName = ''A'', r_cmd = ''save-all'', r_output = [], r_err = None\<rparr>"

definition rconFailed :: rconResultMsg where
  "rconFailed = \<lparr>r_serverName = ''A'', r_cmd = ''status'', r_output = [],
                  r_err = Some ''failed to connect: timeout''\<rparr>"

definition dockerDone :: dockerResultMsg where
  "dockerDone = \<lparr>d_serverName = ''B'', d_action = ''status'', d_output = ''running'',
                  d_err = None\<rparr>"

definition dockerQuiet :: dockerResultMsg where
  "dockerQuiet = \<lparr>d_serverName = ''B'', d_action = ''stop'', d_output = [], d_err = None\<rparr>"

definition dockerFailed :: dockerResultMsg where
  "dockerFailed = \<lparr>d_serverName = ''B'', d_action = ''start'', d_output = [],
                    d_err = Some ''exit status 1''\<rparr>"

text \<open>The session on the registry with \<open>srvA\<close> alone, after the line \<open>status\<close> was typed.\<close>

definition typedStatus :: model where
  "typedStatus = (initialModel [srvA])\<lparr>input_w := \<lparr>ta_value = ''status''\<rparr>\<rparr>"

subsection \<open>Properties of the log buffer\<close>

lemma pushLog_eq:
  "pushLog x m = m\<lparr>logLines := drop (Suc (length (logLines m)) - maxLines) (logLines m @ [x])\<rparr>"
  by (simp add: pushLog_def Let_def)

lemma pushLog_drop:
  "logLines (pushLog x m) = drop (Suc (length (logLines m)) - maxLines) (logLines m @ [x])"
  by (simp add: pushLog_eq)

lemma pushLog_length: "length (logLines (pushLog x m)) \<le> maxLines"
  by (simp add: pushLog_def Let_def maxLines_def)

lemma pushAll_snoc: "pushAll (xs @ [x]) m = pushLog x (pushAll xs m)"
  by (induction xs arbitrary: m) simp_all

lemma pushLog_after_drop:
  assumes "logLines m = drop (length zs - maxLines) zs"
  shows "logLines (pushLog y m) = drop (Suc (length zs) - maxLines) (zs @ [y])"
proof -
  let ?n = "length zs - maxLines"
  have "logLines (pushLog y m)
          = drop (Suc (length (drop ?n zs)) - maxLines) (drop ?n zs @ [y])"
    by (simp only: pushLog_drop assms)
  also have "drop ?n zs @ [y] = drop ?n (zs @ [y])"
    by simp
  also have "drop (Suc (length (drop ?n zs)) - maxLines) (drop ?n (zs @ [y]))
               = drop (Suc (length (drop ?n zs)) - maxLines + ?n) (zs @ [y])"
    by (simp only: drop_drop)
  also have "Suc (length (drop ?n zs)) - maxLines + ?n = Suc (length zs) - maxLines"
    by (simp add: maxLines_def)
  finally show ?thesis .
qed

lemma pushAll_drop:
  "logLines (pushAll (x # xs) m)
     = drop (length (logLines m @ x # xs) - maxLines) (logLines m @ x # xs)"
proof (induction xs rule: rev_induct)
  case Nil
  show ?case by (simp add: pushLog_drop)
next
  case (snoc y ys)
  have "pushAll (x # ys @ [y]) m = pushLog y (pushAll (x # ys) m)"
    using pushAll_snoc [of "x # ys" y m] by simp
  moreover have "logLines (pushLog y (pushAll (x # ys) m))
       = drop (Suc (length (logLines m @ x # ys)) - maxLines) ((logLines m @ x # ys) @ [y])"
    by (rule pushLog_after_drop) (rule snoc.IH)
  ultimately show ?case by simp
qed

text \<open>
  C2. Whatever the buffer holds and whatever lines are appended, after every append the
  buffer has at most 500 lines; a non-empty run of appends leaves exactly the newest 500
  lines of the old buffer followed by the appended lines (all of them when there are
  fewer), in insertion order: only the oldest lines are dropped.
\<close>

theorem pushLog_bounded_fifo:
  "length (logLines (pushLog x m)) \<le> 500 \<and>
   logLines (pushLog x m) = drop (Suc (length (logLines m)) - 500) (logLines m @ [x]) \<and>
   length (logLines (pushAll (x # xs) m)) \<le> 500 \<and>
   logLines (pushAll (x # xs) m)
     = drop (length (logLines m @ x # xs) - 500) (logLines m @ x # xs)"
proof -
  have a: "length (logLines (pushLog x m)) \<le> 500"
    using pushLog_length [of x m] by (simp add: maxLines_def)
  have b: "logLines (pushLog x m) = drop (Suc (length (logLines m)) - 500) (logLines m @ [x])"
    using pushLog_drop [of x m] by (simp add: maxLines_def)
  have d: "logLines (pushAll (x # xs) m)
             = drop (length (logLines m @ x # xs) - 500) (logLines m @ x # xs)"
    using pushAll_drop [of x xs m] by (simp add: maxLines_def)
  have c: "length (logLines (pushAll (x # xs) m)) \<le> 500"
    by (subst d) simp
  from a b c d show ?thesis by blast
qed

subsection \<open>What the helpers leave alone\<close>

lemma pushLog_last: "last (logLines (pushLog x m)) = x"
  by (simp add: pushLog_drop maxLines_def)

lemma pushLog_frame:
  "list_w (pushLog x m) = list_w m" "input_w (pushLog x m) = input_w m"
  "activeName (pushLog x m) = activeName m" "servers (pushLog x m) = servers m"
  "statusLine (pushLog x m) = statusLine m" "statusTimer (pushLog x m) = statusTimer m"
  by (simp_all add: pushLog_eq)

lemma setStatus_simps:
  "statusLine (setStatus e s m) = s" "statusTimer (setStatus e s m) = now e"
  "logLines (setStatus e s m) = logLines m" "activeName (setStatus e s m) = activeName m"
  "servers (setStatus e s m) = servers m" "list_w (setStatus e s m) = list_w m"
  "input_w (setStatus e s m) = input_w m"
  by (simp_all add: setStatus_def)

lemma activeServer_input: "activeServer (m\<lparr>input_w := t\<rparr>) = activeServer m"
  by (simp add: activeServer_def)

lemma activeServer_Some:
  "activeServer m = Some s \<Longrightarrow>
     s \<in> set (servers m) \<and> Name s = activeName m \<and> activeName m \<noteq> []"
  by (auto simp: activeServer_def find_Some_iff split: if_splits)

lemma activeServer_found:
  assumes "activeName m \<noteq> []" and "activeName m \<in> Name ` set (servers m)"
  shows "\<exists>s. activeServer m = Some s \<and> s \<in> set (servers m) \<and> Name s = activeName m"
proof -
  from assms(2) have "\<exists>s \<in> set (servers m). Name s = activeName m" by auto
  then obtain s where "find (\<lambda>s. Name s = activeName m) (servers m) = Some s"
    by (cases "find (\<lambda>s. Name s = activeName m) (servers m)") (auto simp: find_None_iff)
  moreover from this have "s \<in> set (servers m) \<and> Name s = activeName m"
    by (auto simp: find_Some_iff)
  ultimately show ?thesis using assms(1) by (simp add: activeServer_def)
qed

lemma initialModel_fields:
  "servers (initialModel srvs) = srvs"
  "l_items (list_w (initialModel srvs)) = srvs"
  "l_cursor (list_w (initialModel srvs)) = 0"
  "activeName (initialModel srvs) = (if srvs = [] then [] else Name (srvs ! 0))"
  "input_w (initialModel srvs) = \<lparr>ta_value = []\<rparr>"
  by (simp_all add: initialModel_def Let_def l_Select_def pushLog_frame)

lemma initialModel_log:
  "logLines (initialModel (s # srvs)) = [''Ready.'', ''Active server: '' @ Name s]"
  by (simp add: initialModel_def Let_def l_Select_def pushLog_drop maxLines_def)

subsection \<open>Select-next\<close>

lemma keyTab_eq:
  assumes "l_items (list_w m) \<noteq> []"
  shows "fst (keyTab m) =
           pushLog (''Active server: '' @
                      Name (l_items (list_w m) !
                              ((l_cursor (list_w m) + 1) mod length (l_items (list_w m)))))
             (m\<lparr>list_w := (list_w m)\<lparr>l_cursor :=
                    (l_cursor (list_w m) + 1) mod length (l_items (list_w m))\<rparr>,
                activeName :=
                  Name (l_items (list_w m) !
                          ((l_cursor (list_w m) + 1) mod length (l_items (list_w m))))\<rparr>)"
proof -
  have "\<not> length (l_items (list_w m))
            \<le> Suc (l_cursor (list_w m)) mod length (l_items (list_w m))"
    using assms by (simp add: not_le)
  then show ?thesis
    using assms
    by (simp add: keyTab_def l_Items_def l_Index_def l_Select_def l_SelectedItem_def Let_def)
qed

lemma selectNext_fields:
  assumes "l_items (list_w m) \<noteq> []"
  shows "l_cursor (list_w (selectNext e m))
           = (l_cursor (list_w m) + 1) mod length (l_items (list_w m))"
    and "l_items (list_w (selectNext e m)) = l_items (list_w m)"
    and "servers (selectNext e m) = servers m"
    and "activeName (selectNext e m) =
           Name (l_items (list_w m) !
                   ((l_cursor (list_w m) + 1) mod length (l_items (list_w m))))"
    and "last (logLines (selectNext e m)) = ''Active server: '' @ activeName (selectNext e m)"
  using assms by (simp_all add: selectNext_def keyTab_eq pushLog_frame pushLog_last)

lemma selectNext_iter:
  assumes "l_items (list_w m) \<noteq> []"
  shows "l_items (list_w ((selectNext e ^^ n) m)) = l_items (list_w m) \<and>
         servers ((selectNext e ^^ n) m) = servers m \<and>
         l_cursor (list_w ((selectNext e ^^ Suc n) m))
           = (l_cursor (list_w m) + Suc n) mod length (l_items (list_w m))"
proof (induction n)
  case 0
  show ?case using assms by (simp add: selectNext_fields)
next
  case (Suc n)
  let ?m = "(selectNext e ^^ Suc n) m"
  let ?N = "length (l_items (list_w m))"
  have its: "l_items (list_w ?m) = l_items (list_w m)"
    using Suc assms by (simp add: selectNext_fields)
  have srv: "servers ?m = servers m"
    using Suc assms by (simp add: selectNext_fields)
  have ne: "l_items (list_w ?m) \<noteq> []" using its assms by simp
  have "l_cursor (list_w (selectNext e ?m))
          = (l_cursor (list_w ?m) + 1) mod length (l_items (list_w ?m))"
    by (rule selectNext_fields(1) [OF ne])
  also have "\<dots> = ((l_cursor (list_w m) + Suc n) mod ?N + 1) mod ?N"
    using Suc its by simp
  also have "\<dots> = (l_cursor (list_w m) + Suc (Suc n)) mod ?N"
    by (simp add: mod_Suc_eq)
  finally have cur: "l_cursor (list_w ((selectNext e ^^ Suc (Suc n)) m))
      = (l_cursor (list_w m) + Suc (Suc n)) mod ?N"
    by simp
  from its srv cur show ?case by simp
qed

lemma selectNext_iter_active:
  assumes "l_items (list_w m) \<noteq> []"
  shows "activeName ((selectNext e ^^ Suc n) m)
           = Name (l_items (list_w m) !
                     ((l_cursor (list_w m) + Suc n) mod length (l_items (list_w m))))"
proof -
  let ?m = "(selectNext e ^^ n) m"
  let ?N = "length (l_items (list_w m))"
  have its: "l_items (list_w ?m) = l_items (list_w m)"
    using selectNext_iter [OF assms, where e = e and n = n] by simp
  have ne: "l_items (list_w ?m) \<noteq> []" using its assms by simp
  have cur: "(l_cursor (list_w ?m) + 1) mod ?N = (l_cursor (list_w m) + Suc n) mod ?N"
  proof (cases n)
    case 0
    then show ?thesis by simp
  next
    case (Suc k)
    then show ?thesis
      using selectNext_iter [OF assms, where e = e and n = k] by (simp add: mod_Suc_eq)
  qed
  have "activeName (selectNext e ?m)
          = Name (l_items (list_w ?m) !
                    ((l_cursor (list_w ?m) + 1) mod length (l_items (list_w ?m))))"
    by (rule selectNext_fields(4) [OF ne])
  then show ?thesis using its cur by simp
qed

text \<open>
  C1, as the code has it. On a session whose list shows the registry, and a registry of
  \<open>N > 0\<close> entries: one select-next moves the index to \<open>(index+1) mod N\<close>, makes the
  entry at the new index the active server and logs the switch; after any run of
  select-next events the active server is the registry entry at the index; and \<open>N\<close>
  events (not \<open>N+1\<close>) bring an index within range, and the entry it selects, back.
\<close>

theorem select_next_cycle:
  assumes "l_items (list_w m) = servers m" and "servers m \<noteq> []"
  shows "l_cursor (list_w (selectNext e m))
           = (l_cursor (list_w m) + 1) mod length (servers m) \<and>
         activeName (selectNext e m) = Name (servers m ! l_cursor (list_w (selectNext e m))) \<and>
         last (logLines (selectNext e m)) = ''Active server: '' @ activeName (selectNext e m) \<and>
         servers ((selectNext e ^^ Suc n) m) = servers m \<and>
         l_cursor (list_w ((selectNext e ^^ Suc n) m))
           = (l_cursor (list_w m) + Suc n) mod length (servers m) \<and>
         activeName ((selectNext e ^^ Suc n) m)
           = Name (servers m ! l_cursor (list_w ((selectNext e ^^ Suc n) m))) \<and>
         (l_cursor (list_w m) < length (servers m) \<longrightarrow>
            l_cursor (list_w ((selectNext e ^^ length (servers m)) m)) = l_cursor (list_w m) \<and>
            activeName ((selectNext e ^^ length (servers m)) m)
              = Name (servers m ! l_cursor (list_w m)))"
proof -
  have ne: "l_items (list_w m) \<noteq> []" using assms by simp
  note one = selectNext_fields [OF ne, where e = e]
  note many = selectNext_iter [OF ne, where e = e and n = "Suc n"]
  note cur = selectNext_iter [OF ne, where e = e and n = n]
  note act = selectNext_iter_active [OF ne, where e = e and n = n]
  have a: "l_cursor (list_w (selectNext e m))
             = (l_cursor (list_w m) + 1) mod length (servers m)"
    using one(1) assms(1) by simp
  have b: "activeName (selectNext e m)
             = Name (servers m ! l_cursor (list_w (selectNext e m)))"
    using one(1) one(4) assms(1) by simp
  have c: "last (logLines (selectNext e m))
             = ''Active server: '' @ activeName (selectNext e m)"
    by (rule one(5))
  have d: "servers ((selectNext e ^^ Suc n) m) = servers m"
    using many by blast
  have f: "l_cursor (list_w ((selectNext e ^^ Suc n) m))
             = (l_cursor (list_w m) + Suc n) mod length (servers m)"
    using cur assms(1) by simp
  have g: "activeName ((selectNext e ^^ Suc n) m)
             = Name (servers m ! l_cursor (list_w ((selectNext e ^^ Suc n) m)))"
    using act f assms(1) by simp
  have h: "l_cursor (list_w ((selectNext e ^^ length (servers m)) m)) = l_cursor (list_w m) \<and>
           activeName ((selectNext e ^^ length (servers m)) m)
             = Name (servers m ! l_cursor (list_w m))"
    if lt: "l_cursor (list_w m) < length (servers m)"
  proof -
    have modN: "(l_cursor (list_w m) + length (servers m)) mod length (servers m)
                  = l_cursor (list_w m)"
      using lt by simp
    obtain k where k: "length (servers m) = Suc k"
      using assms(2) by (cases "servers m") auto
    have "l_cursor (list_w ((selectNext e ^^ Suc k) m))
            = (l_cursor (list_w m) + Suc k) mod length (servers m)"
      using selectNext_iter [OF ne, where e = e and n = k] assms(1) by simp
    also have "\<dots> = l_cursor (list_w m)"
      using modN by (simp only: k)
    finally have c1: "l_cursor (list_w ((selectNext e ^^ Suc k) m)) = l_cursor (list_w m)" .
    have "activeName ((selectNext e ^^ Suc k) m)
            = Name (servers m ! ((l_cursor (list_w m) + Suc k) mod length (servers m)))"
      using selectNext_iter_active [OF ne, where e = e and n = k] assms(1) by simp
    also have "(l_cursor (list_w m) + Suc k) mod length (servers m) = l_cursor (list_w m)"
      using modN by (simp only: k)
    finally have c2: "activeName ((selectNext e ^^ Suc k) m)
                        = Name (servers m ! l_cursor (list_w m))" .
    from c1 c2 show ?thesis by (simp only: k)
  qed
  from a b c d f g h show ?thesis by blast
qed

theorem select_next_cycle_witness:
  "l_items (list_w (initialModel [srvA, srvB])) = servers (initialModel [srvA, srvB]) \<and>
   servers (initialModel [srvA, srvB]) \<noteq> [] \<and>
   l_cursor (list_w (initialModel [srvA, srvB])) < length (servers (initialModel [srvA, srvB])) \<and>
   activeName (selectNext env0 (initialModel [srvA, srvB])) = ''B'' \<and>
   activeName ((selectNext env0 ^^ length (servers (initialModel [srvA, srvB])))
                 (initialModel [srvA, srvB])) = ''A''"
proof -
  let ?m = "initialModel [srvA, srvB]"
  have h1: "l_items (list_w ?m) = servers ?m" by (simp add: initialModel_fields)
  have h2: "servers ?m \<noteq> []" by (simp add: initialModel_fields)
  have h3: "l_cursor (list_w ?m) < length (servers ?m)" by (simp add: initialModel_fields)
  from select_next_cycle [OF h1 h2, where e = env0 and n = 0] h3
  have "activeName (selectNext env0 ?m) = Name (servers ?m ! l_cursor (list_w (selectNext env0 ?m)))"
    and "l_cursor (list_w (selectNext env0 ?m)) = (l_cursor (list_w ?m) + 1) mod length (servers ?m)"
    and "activeName ((selectNext env0 ^^ length (servers ?m)) ?m)
           = Name (servers ?m ! l_cursor (list_w ?m))"
    by blast+
  then show ?thesis
    using h1 h2 h3 by (simp add: initialModel_fields srvA_def srvB_def)
qed

text \<open>
  C1, as the claim has it, fails: on the registry \<open>[A, B]\<close> three select-next events
  (\<open>N+1\<close> for \<open>N = 2\<close>) leave the selection on \<open>B\<close>, not on the original \<open>A\<close>.
\<close>

theorem select_next_N_plus_1_counterexample:
  "activeName (initialModel [srvA, srvB]) = ''A'' \<and>
   l_cursor (list_w (initialModel [srvA, srvB])) = 0 \<and>
   activeName ((selectNext env0 ^^ (length (servers (initialModel [srvA, srvB])) + 1))
                 (initialModel [srvA, srvB])) = ''B'' \<and>
   l_cursor (list_w ((selectNext env0 ^^ (length (servers (initialModel [srvA, srvB])) + 1))
                       (initialModel [srvA, srvB]))) = 1"
proof -
  have n: "length (servers (initialModel [srvA, srvB])) + 1 = Suc (Suc (Suc 0))"
    by (simp add: initialModel_fields)
  show ?thesis
    unfolding n
    by (simp add: selectNext_def keyTab_def initialModel_def pushLog_def maxLines_def
          l_Items_def l_Index_def l_Select_def l_SelectedItem_def srvA_def srvB_def Let_def)
qed

subsection \<open>Result events\<close>

text \<open>
  C3. An RCON result with an error appends \<open>[server] (warning sign) ERROR: cause\<close> and
  sets the status to \<open>Command failed\<close>; one without appends \<open>[server] < output\<close>, with
  \<open>(no response)\<close> for an empty output, and sets the status to \<open>OK\<close>. The appended
  line is the last line of the buffer, and no command is returned.
\<close>

theorem rcon_result_dispatch:
  "(r_err r = Some cause \<longrightarrow>
      Update e m (RconResult r) =
        (setStatus e ''Command failed''
           (pushLog (''['' @ r_serverName r @ ''] '' @ warnSign @ '' ERROR: '' @ cause) m),
         NoCmd) \<and>
      last (logLines (fst (Update e m (RconResult r))))
        = ''['' @ r_serverName r @ ''] '' @ warnSign @ '' ERROR: '' @ cause \<and>
      statusLine (fst (Update e m (RconResult r))) = ''Command failed'') \<and>
   (r_err r = None \<and> r_output r = [] \<longrightarrow>
      Update e m (RconResult r) =
        (setStatus e ''OK'' (pushLog (''['' @ r_serverName r @ ''] < (no response)'') m),
         NoCmd) \<and>
      last (logLines (fst (Update e m (RconResult r))))
        = ''['' @ r_serverName r @ ''] < (no response)'' \<and>
      statusLine (fst (Update e m (RconResult r))) = ''OK'') \<and>
   (r_err r = None \<and> r_output r \<noteq> [] \<longrightarrow>
      Update e m (RconResult r) =
        (setStatus e ''OK'' (pushLog (''['' @ r_serverName r @ ''] < '' @ r_output r) m),
         NoCmd) \<and>
      last (logLines (fst (Update e m (RconResult r))))
        = ''['' @ r_serverName r @ ''] < '' @ r_output r \<and>
      statusLine (fst (Update e m (RconResult r))) = ''OK'')"
  by (simp add: setStatus_simps pushLog_last)

theorem rcon_result_dispatch_witness:
  "r_err rconFailed = Some ''failed to connect: timeout'' \<and>
   last (logLines (fst (Update env0 (initialModel [srvA]) (RconResult rconFailed))))
     = ''[A] '' @ warnSign @ '' ERROR: failed to connect: timeout'' \<and>
   statusLine (fst (Update env0 (initialModel [srvA]) (RconResult rconFailed)))
     = ''Command failed'' \<and>
   r_err rconSilent = None \<and> r_output rconSilent = [] \<and>
   last (logLines (fst (Update env0 (initialModel [srvA]) (RconResult rconSilent))))
     = ''[A] < (no response)'' \<and>
   r_err rconOnline = None \<and> r_output rconOnline \<noteq> [] \<and>
   last (logLines (fst (Update env0 (initialModel [srvA]) (RconResult rconOnline))))
     = ''[A] < Online'' \<and>
   statusLine (fst (Update env0 (initialModel [srvA]) (RconResult rconOnline))) = ''OK''"
proof -
  let ?m = "initialModel [srvA]"
  have f: "r_err rconFailed = Some ''failed to connect: timeout''"
    by (simp add: rconFailed_def)
  have s: "r_err rconSilent = None \<and> r_output rconSilent = []"
    by (simp add: rconSilent_def)
  have o: "r_err rconOnline = None \<and> r_output rconOnline \<noteq> []"
    by (simp add: rconOnline_def)
  from f rcon_result_dispatch
         [where r = rconFailed and cause = "''failed to connect: timeout''" and e = env0 and m = ?m]
  have n1: "last (logLines (fst (Update env0 ?m (RconResult rconFailed))))
             = ''['' @ r_serverName rconFailed @ ''] '' @ warnSign
                 @ '' ERROR: '' @ ''failed to connect: timeout''"
    and n2: "statusLine (fst (Update env0 ?m (RconResult rconFailed))) = ''Command failed''"
    by blast+
  from s rcon_result_dispatch [where r = rconSilent and e = env0 and m = ?m]
  have n3: "last (logLines (fst (Update env0 ?m (RconResult rconSilent))))
             = ''['' @ r_serverName rconSilent @ ''] < (no response)''"
    by blast
  from o rcon_result_dispatch [where r = rconOnline and e = env0 and m = ?m]
  have n4: "last (logLines (fst (Update env0 ?m (RconResult rconOnline))))
             = ''['' @ r_serverName rconOnline @ ''] < '' @ r_output rconOnline"
    and n5: "statusLine (fst (Update env0 ?m (RconResult rconOnline))) = ''OK''"
    by blast+
  have p1: "last (logLines (fst (Update env0 ?m (RconResult rconFailed))))
             = ''[A] '' @ warnSign @ '' ERROR: failed to connect: timeout''"
    using n1 by (simp add: rconFailed_def)
  have p3: "last (logLines (fst (Update env0 ?m (RconResult rconSilent))))
             = ''[A] < (no response)''"
    using n3 by (simp add: rconSilent_def)
  have p4: "last (logLines (fst (Update env0 ?m (RconResult rconOnline)))) = ''[A] < Online''"
    using n4 by (simp add: rconOnline_def)
  from f s o p1 n2 p3 p4 n5 show ?thesis by blast
qed

text \<open>
  C4, as the code has it. A container result with an error appends
  \<open>[server] (whale) ERROR: cause\<close>, a line that carries the server name and the cause
  but not the action, and sets the status to \<open>Docker action failed\<close>; one without
  appends \<open>[server] (whale) action: output\<close>, with \<open>success\<close> for an empty output, and
  sets the status to \<open>Docker action OK\<close>. No command is returned.
\<close>

theorem docker_result_dispatch:
  "(d_err d = Some cause \<longrightarrow>
      Update e m (DockerResult d) =
        (setStatus e (''Docker '' @ d_action d @ '' failed'')
           (pushLog (''['' @ d_serverName d @ ''] '' @ whale @ '' ERROR: '' @ cause) m),
         NoCmd) \<and>
      last (logLines (fst (Update e m (DockerResult d))))
        = ''['' @ d_serverName d @ ''] '' @ whale @ '' ERROR: '' @ cause \<and>
      statusLine (fst (Update e m (DockerResult d))) = ''Docker '' @ d_action d @ '' failed'') \<and>
   (d_err d = None \<and> d_output d = [] \<longrightarrow>
      Update e m (DockerResult d) =
        (setStatus e (''Docker '' @ d_action d @ '' OK'')
           (pushLog (''['' @ d_serverName d @ ''] '' @ whale @ '' '' @ d_action d
                      @ '': success'') m),
         NoCmd) \<and>
      last (logLines (fst (Update e m (DockerResult d))))
        = ''['' @ d_serverName d @ ''] '' @ whale @ '' '' @ d_action d @ '': success'' \<and>
      statusLine (fst (Update e m (DockerResult d))) = ''Docker '' @ d_action d @ '' OK'') \<and>
   (d_err d = None \<and> d_output d \<noteq> [] \<longrightarrow>
      Update e m (DockerResult d) =
        (setStatus e (''Docker '' @ d_action d @ '' OK'')
           (pushLog (''['' @ d_serverName d @ ''] '' @ whale @ '' '' @ d_action d
                      @ '': '' @ d_output d) m),
         NoCmd) \<and>
      last (logLines (fst (Update e m (DockerResult d))))
        = ''['' @ d_serverName d @ ''] '' @ whale @ '' '' @ d_action d @ '': '' @ d_output d \<and>
      statusLine (fst (Update e m (DockerResult d))) = ''Docker '' @ d_action d @ '' OK'')"
  by (simp add: setStatus_simps pushLog_last)

theorem docker_result_dispatch_witness:
  "d_err dockerFailed = Some ''exit status 1'' \<and>
   last (logLines (fst (Update env0 (initialModel [srvB]) (DockerResult dockerFailed))))
     = ''[B] '' @ whale @ '' ERROR: exit status 1'' \<and>
   statusLine (fst (Update env0 (initialModel [srvB]) (DockerResult dockerFailed)))
     = ''Docker start failed'' \<and>
   d_err dockerQuiet = None \<and> d_output dockerQuiet = [] \<and>
   last (logLines (fst (Update env0 (initialModel [srvB]) (DockerResult dockerQuiet))))
     = ''[B] '' @ whale @ '' stop: success'' \<and>
   statusLine (fst (Update env0 (initialModel [srvB]) (DockerResult dockerQuiet)))
     = ''Docker stop OK'' \<and>
   d_err dockerDone = None \<and> d_output dockerDone \<noteq> [] \<and>
   last (logLines (fst (Update env0 (initialModel [srvB]) (DockerResult dockerDone))))
     = ''[B] '' @ whale @ '' status: running''"
proof -
  let ?m = "initialModel [srvB]"
  have f: "d_err dockerFailed = Some ''exit status 1''"
    by (simp add: dockerFailed_def)
  have q: "d_err dockerQuiet = None \<and> d_output dockerQuiet = []"
    by (simp add: dockerQuiet_def)
  have o: "d_err dockerDone = None \<and> d_output dockerDone \<noteq> []"
    by (simp add: dockerDone_def)
  from f docker_result_dispatch
         [where d = dockerFailed and cause = "''exit status 1''" and e = env0 and m = ?m]
  have n1: "last (logLines (fst (Update env0 ?m (DockerResult dockerFailed))))
             = ''['' @ d_serverName dockerFailed @ ''] '' @ whale @ '' ERROR: '' @ ''exit status 1''"
    and n2: "statusLine (fst (Update env0 ?m (DockerResult dockerFailed)))
              = ''Docker '' @ d_action dockerFailed @ '' failed''"
    by blast+
  from q docker_result_dispatch [where d = dockerQuiet and e = env0 and m = ?m]
  have n3: "last (logLines (fst (Update env0 ?m (DockerResult dockerQuiet))))
             = ''['' @ d_serverName dockerQuiet @ ''] '' @ whale @ '' '' @ d_action dockerQuiet
                 @ '': success''"
    and n4: "statusLine (fst (Update env0 ?m (DockerResult dockerQuiet)))
              = ''Docker '' @ d_action dockerQuiet @ '' OK''"
    by blast+
  from o docker_result_dispatch [where d = dockerDone and e = env0 and m = ?m]
  have n5: "last (logLines (fst (Update env0 ?m (DockerResult dockerDone))))
             = ''['' @ d_serverName dockerDone @ ''] '' @ whale @ '' '' @ d_action dockerDone
                 @ '': '' @ d_output dockerDone"
    by blast
  have p1: "last (logLines (fst (Update env0 ?m (DockerResult dockerFailed))))
              = ''[B] '' @ whale @ '' ERROR: exit status 1''"
    using n1 by (simp add: dockerFailed_def)
  have p2: "statusLine (fst (Update env0 ?m (DockerResult dockerFailed))) = ''Docker start failed''"
    using n2 by (simp add: dockerFailed_def)
  have p3: "last (logLines (fst (Update env0 ?m (DockerResult dockerQuiet))))
              = ''[B] '' @ whale @ '' stop: success''"
    using n3 by (simp add: dockerQuiet_def)
  have p4: "statusLine (fst (Update env0 ?m (DockerResult dockerQuiet))) = ''Docker stop OK''"
    using n4 by (simp add: dockerQuiet_def)
  have p5: "last (logLines (fst (Update env0 ?m (DockerResult dockerDone))))
              = ''[B] '' @ whale @ '' status: running''"
    using n5 by (simp add: dockerDone_def)
  from f q o p1 p2 p3 p4 p5 show ?thesis by blast
qed

text \<open>
  C4, as the claim has it, fails: the error line of a failed \<open>start\<close> does not mention
  the action anywhere; only the status does.
\<close>

theorem docker_error_line_counterexample:
  "d_err dockerFailed = Some ''exit status 1'' \<and>
   d_action dockerFailed = ''start'' \<and>
   last (logLines (fst (Update env0 (initialModel [srvB]) (DockerResult dockerFailed))))
     = ''[B] '' @ whale @ '' ERROR: exit status 1'' \<and>
   \<not> sublist (d_action dockerFailed)
        (last (logLines (fst (Update env0 (initialModel [srvB]) (DockerResult dockerFailed)))))"
  by (simp add: dockerFailed_def setStatus_simps pushLog_last whale_def sublist_Cons_right)

subsection \<open>Submitting a command\<close>

text \<open>
  C5. Enter with a non-empty typed line while an active server is found: the text area is
  reset, the line \<open>[server] > text\<close> is appended (server being the active name), the
  status becomes \<open>Sending...\<close>, and the RCON command for that server and that text is
  returned.
\<close>

theorem submit_command_dispatch:
  assumes "activeServer m = Some s" and "ta_value (input_w m) = text" and "text \<noteq> []"
  shows "Update e m (KeyMsg ''enter'') =
           (setStatus e ''Sending...''
              (pushLog (''['' @ Name s @ ''] > '' @ text)
                 (m\<lparr>input_w := (input_w m)\<lparr>ta_value := []\<rparr>\<rparr>)),
            SendRCONCmd s text) \<and>
         Name s = activeName m \<and> s \<in> set (servers m) \<and>
         last (logLines (fst (Update e m (KeyMsg ''enter'')))) = ''['' @ Name s @ ''] > '' @ text \<and>
         statusLine (fst (Update e m (KeyMsg ''enter''))) = ''Sending...'' \<and>
         snd (Update e m (KeyMsg ''enter'')) = SendRCONCmd s text"
proof -
  have u: "Update e m (KeyMsg ''enter'') =
             (setStatus e ''Sending...''
                (pushLog (''['' @ Name s @ ''] > '' @ text)
                   (m\<lparr>input_w := (input_w m)\<lparr>ta_value := []\<rparr>\<rparr>)),
              SendRCONCmd s text)"
    using assms
    by (simp add: keyEnter_def ta_Value_def ta_Reset_def Let_def activeServer_input)
  have n: "Name s = activeName m \<and> s \<in> set (servers m)"
    using activeServer_Some [OF assms(1)] by simp
  show ?thesis
    by (simp only: u n fst_conv snd_conv setStatus_simps pushLog_last)
qed

theorem submit_command_dispatch_witness:
  "activeServer typedStatus = Some srvA \<and> ta_value (input_w typedStatus) = ''status'' \<and>
   ''status'' \<noteq> [] \<and>
   last (logLines (fst (Update env0 typedStatus (KeyMsg ''enter'')))) = ''[A] > status'' \<and>
   statusLine (fst (Update env0 typedStatus (KeyMsg ''enter''))) = ''Sending...'' \<and>
   snd (Update env0 typedStatus (KeyMsg ''enter'')) = SendRCONCmd srvA ''status''"
proof -
  have h1: "activeServer typedStatus = Some srvA"
    by (simp add: typedStatus_def activeServer_def initialModel_fields srvA_def)
  have h2: "ta_value (input_w typedStatus) = ''status''"
    by (simp add: typedStatus_def)
  have h3: "''status'' \<noteq> []" by simp
  from submit_command_dispatch [OF h1 h2 h3, where e = env0]
  have "last (logLines (fst (Update env0 typedStatus (KeyMsg ''enter''))))
          = ''['' @ Name srvA @ ''] > '' @ ''status''"
    and "statusLine (fst (Update env0 typedStatus (KeyMsg ''enter''))) = ''Sending...''"
    and "snd (Update env0 typedStatus (KeyMsg ''enter'')) = SendRCONCmd srvA ''status''"
    by blast+
  then show ?thesis using h1 h2 by (simp add: srvA_def)
qed

text \<open>
  C6. Enter on an empty text area changes nothing: the session is returned as it was
  (log buffer, active server, status and all) and no command is returned, so nothing is
  launched.
\<close>

theorem empty_submit_noop:
  assumes "ta_value (input_w m) = []"
  shows "Update e m (KeyMsg ''enter'') = (m, NoCmd) \<and>
         logLines (fst (Update e m (KeyMsg ''enter''))) = logLines m \<and>
         activeName (fst (Update e m (KeyMsg ''enter''))) = activeName m \<and>
         statusLine (fst (Update e m (KeyMsg ''enter''))) = statusLine m \<and>
         statusTimer (fst (Update e m (KeyMsg ''enter''))) = statusTimer m \<and>
         launched run (snd (Update e m (KeyMsg ''enter''))) = []"
proof -
  have "Update e m (KeyMsg ''enter'') = (m, NoCmd)"
    using assms by (simp add: keyEnter_def ta_Value_def ta_Reset_def)
  then show ?thesis by simp
qed

theorem empty_submit_noop_witness:
  "ta_value (input_w (initialModel [srvA])) = [] \<and>
   Update env0 (initialModel [srvA]) (KeyMsg ''enter'') = (initialModel [srvA], NoCmd) \<and>
   logLines (fst (Update env0 (initialModel [srvA]) (KeyMsg ''enter'')))
     = [''Ready.'', ''Active server: A'']"
proof -
  have h: "ta_value (input_w (initialModel [srvA])) = []"
    by (simp add: initialModel_fields)
  from empty_submit_noop [OF h, where e = env0 and run = noExec]
  have "Update env0 (initialModel [srvA]) (KeyMsg ''enter'') = (initialModel [srvA], NoCmd)"
    and "logLines (fst (Update env0 (initialModel [srvA]) (KeyMsg ''enter'')))
           = logLines (initialModel [srvA])"
    by blast+
  then show ?thesis using h by (simp add: initialModel_log srvA_def)
qed

subsection \<open>Container keys and the container executor\<close>

text \<open>
  C7. Any of the four container keys, when the active server has no container reference:
  the warning \<open>[server] (warning sign) No container configured\<close> is appended, no
  command is returned, and so no external process is run. The executor itself, handed
  such a descriptor, returns its error without running a process either.
\<close>

theorem no_container_key_warns:
  assumes "k \<in> {''ctrl+s'', ''ctrl+x'', ''ctrl+r'', ''ctrl+d''}"
      and "activeServer m = Some s" and "Container s = []"
  shows "Update e m (KeyMsg k) =
           (pushLog (''['' @ Name s @ ''] '' @ warnSign @ '' No container configured'') m, NoCmd) \<and>
         last (logLines (fst (Update e m (KeyMsg k))))
           = ''['' @ Name s @ ''] '' @ warnSign @ '' No container configured'' \<and>
         launched run (snd (Update e m (KeyMsg k))) = [] \<and>
         snd (dockerAction run s a) = [] \<and>
         d_err (fst (dockerAction run s a)) = Some ''no container configured''"
proof -
  have u: "Update e m (KeyMsg k) =
             (pushLog (''['' @ Name s @ ''] '' @ warnSign @ '' No container configured'') m, NoCmd)"
    using assms by (auto simp: containerKey_def)
  have x: "snd (dockerAction run s a) = [] \<and>
           d_err (fst (dockerAction run s a)) = Some ''no container configured''"
    using assms(3) by (simp add: dockerAction_def)
  show ?thesis
    using x by (simp only: u fst_conv snd_conv pushLog_last launched.simps)
qed

theorem no_container_key_warns_witness:
  "''ctrl+s'' \<in> {''ctrl+s'', ''ctrl+x'', ''ctrl+r'', ''ctrl+d''} \<and>
   activeServer (initialModel [srvA]) = Some srvA \<and> Container srvA = [] \<and>
   last (logLines (fst (Update env0 (initialModel [srvA]) (KeyMsg ''ctrl+s''))))
     = ''[A] '' @ warnSign @ '' No container configured'' \<and>
   snd (Update env0 (initialModel [srvA]) (KeyMsg ''ctrl+s'')) = NoCmd"
proof -
  have h1: "''ctrl+s'' \<in> {''ctrl+s'', ''ctrl+x'', ''ctrl+r'', ''ctrl+d''}" by simp
  have h2: "activeServer (initialModel [srvA]) = Some srvA"
    by (simp add: activeServer_def initialModel_fields srvA_def)
  have h3: "Container srvA = []" by (simp add: srvA_def)
  from no_container_key_warns [OF h1 h2 h3, where e = env0 and run = noExec and a = "''start''"]
  have u: "Update env0 (initialModel [srvA]) (KeyMsg ''ctrl+s'') =
             (pushLog (''['' @ Name srvA @ ''] '' @ warnSign @ '' No container configured'')
                (initialModel [srvA]), NoCmd)"
    and l: "last (logLines (fst (Update env0 (initialModel [srvA]) (KeyMsg ''ctrl+s''))))
           = ''['' @ Name srvA @ ''] '' @ warnSign @ '' No container configured''"
    by blast+
  have c: "snd (Update env0 (initialModel [srvA]) (KeyMsg ''ctrl+s'')) = NoCmd"
    by (simp only: u snd_conv)
  from l c h1 h2 h3 show ?thesis by (simp add: srvA_def)
qed

text \<open>
  C8, as the code has it. A request whose action is none of start, stop, restart and
  status never runs an external process and returns an error with no output: the error
  is \<open>unknown action: action\<close> when the descriptor has a container reference, and
  \<open>no container configured\<close>, from the check that comes first, when it has none.
\<close>

theorem unknown_action_rejected:
  assumes "action \<notin> {''start'', ''stop'', ''restart'', ''status''}"
  shows "snd (dockerAction run s action) = [] \<and>
         d_output (fst (dockerAction run s action)) = [] \<and>
         d_serverName (fst (dockerAction run s action)) = Name s \<and>
         d_action (fst (dockerAction run s action)) = action \<and>
         (Container s \<noteq> [] \<longrightarrow>
            d_err (fst (dockerAction run s action)) = Some (''unknown action: '' @ action) \<and>
            sublist ''unknown action'' (''unknown action: '' @ action)) \<and>
         (Container s = [] \<longrightarrow>
            d_err (fst (dockerAction run s action)) = Some ''no container configured'')"
proof -
  have "prefix ''unknown action'' (''unknown action: '' @ action)"
    by simp
  then have "sublist ''unknown action'' (''unknown action: '' @ action)"
    by (rule prefix_imp_sublist)
  then show ?thesis
    using assms by (simp add: dockerAction_def)
qed

theorem unknown_action_rejected_witness:
  "''purge'' \<notin> {''start'', ''stop'', ''restart'', ''status''} \<and> Container srvB \<noteq> [] \<and>
   Container srvA = [] \<and>
   snd (dockerAction noExec srvB ''purge'') = [] \<and>
   d_err (fst (dockerAction noExec srvB ''purge'')) = Some ''unknown action: purge'' \<and>
   d_err (fst (dockerAction noExec srvA ''purge'')) = Some ''no container configured''"
proof -
  have h: "''purge'' \<notin> {''start'', ''stop'', ''restart'', ''status''}" by simp
  have b: "Container srvB \<noteq> []" by (simp add: srvB_def)
  have a: "Container srvA = []" by (simp add: srvA_def)
  from b unknown_action_rejected [OF h, where run = noExec and s = srvB]
  have n1: "snd (dockerAction noExec srvB ''purge'') = []"
    and n2: "d_err (fst (dockerAction noExec srvB ''purge'')) = Some (''unknown action: '' @ ''purge'')"
    by blast+
  from a unknown_action_rejected [OF h, where run = noExec and s = srvA]
  have n3: "d_err (fst (dockerAction noExec srvA ''purge'')) = Some ''no container configured''"
    by blast
  from h a b n1 n2 n3 show ?thesis by simp
qed

text \<open>
  C8, as the claim has it, fails: for a descriptor without a container reference the
  unknown action \<open>purge\<close> is answered with \<open>no container configured\<close>, an error that
  does not contain \<open>unknown action\<close>.
\<close>

theorem unknown_action_counterexample:
  "''purge'' \<notin> {''start'', ''stop'', ''restart'', ''status''} \<and>
   d_err (fst (dockerAction noExec srvA ''purge'')) = Some ''no container configured'' \<and>
   \<not> sublist ''unknown action'' ''no container configured''"
  by (simp add: dockerAction_def srvA_def sublist_Cons_right)

subsection \<open>The registry invariant\<close>

lemma containerKey_frame:
  "servers (fst (containerKey e m a b c)) = servers m"
  "list_w (fst (containerKey e m a b c)) = list_w m"
  "activeName (fst (containerKey e m a b c)) = activeName m"
  by (simp_all add: containerKey_def pushLog_frame setStatus_simps split: option.splits)

lemma keyEnter_frame:
  "servers (fst (keyEnter e m)) = servers m"
  "list_w (fst (keyEnter e m)) = list_w m"
  "activeName (fst (keyEnter e m)) = activeName m"
  by (simp_all add: keyEnter_def Let_def pushLog_frame setStatus_simps split: option.splits)

lemma forward_frame:
  "servers (fst (forward e m x)) = servers m"
  "l_items (list_w (fst (forward e m x))) = l_items (list_w m)"
  "activeName (fst (forward e m x)) = activeName m"
  by (simp_all add: forward_def Let_def)

lemma keyTab_frame:
  "servers (fst (keyTab m)) = servers m"
  "l_items (list_w (fst (keyTab m))) = l_items (list_w m)"
  by (simp_all add: keyTab_def Let_def l_Select_def pushLog_frame split: option.splits)

lemma keyTab_active:
  "activeName (fst (keyTab m)) = activeName m \<or>
   activeName (fst (keyTab m)) \<in> Name ` set (l_items (list_w m))"
  by (auto simp: keyTab_def Let_def l_Select_def l_SelectedItem_def l_Index_def pushLog_frame
           split: option.splits if_splits)

lemma Update_servers: "servers (fst (Update e m x)) = servers m"
  by (cases x)
     (simp_all add: containerKey_frame keyEnter_frame forward_frame keyTab_frame
        pushLog_frame setStatus_simps Let_def split: option.splits)

lemma Update_items: "l_items (list_w (fst (Update e m x))) = l_items (list_w m)"
  by (cases x)
     (simp_all add: containerKey_frame keyEnter_frame forward_frame keyTab_frame
        pushLog_frame setStatus_simps Let_def split: option.splits)

lemma Update_active:
  "activeName (fst (Update e m x)) = activeName m \<or>
   activeName (fst (Update e m x)) \<in> Name ` set (l_items (list_w m))"
proof (cases x)
  case (KeyMsg k)
  then show ?thesis
    using keyTab_active [of m]
    by (simp add: containerKey_frame keyEnter_frame forward_frame)
qed (simp_all add: forward_frame pushLog_frame setStatus_simps Let_def split: option.splits)

text \<open>
  The list keeps showing the registry, the registry never changes, and the active name
  is empty or the name of a registry entry: together these survive every event.
\<close>

lemma run_events_inv:
  assumes "l_items (list_w m) = servers m"
      and "activeName m = [] \<or> activeName m \<in> Name ` set (servers m)"
  shows "servers (run_events m evs) = servers m \<and>
         l_items (list_w (run_events m evs)) = servers m \<and>
         (activeName (run_events m evs) = [] \<or>
          activeName (run_events m evs) \<in> Name ` set (servers m))"
  using assms
proof (induction evs arbitrary: m)
  case Nil
  then show ?case by simp
next
  case (Cons ev evs)
  obtain e x where ev: "ev = (e, x)" by (cases ev)
  let ?m = "fst (Update e m x)"
  have s: "servers ?m = servers m" by (rule Update_servers)
  have i: "l_items (list_w ?m) = servers ?m"
    using Cons.prems(1) by (simp add: Update_items Update_servers)
  have a: "activeName ?m = [] \<or> activeName ?m \<in> Name ` set (servers ?m)"
    using Update_active [of e m x] Cons.prems by (auto simp: Update_servers)
  from Cons.IH [OF i a] show ?case using s ev by simp
qed

text \<open>
  C9. In the initial session and after any run of events from it, the registry is the
  one the session started with, and an active name that is set is the name of a registry
  entry, which \<^verbatim>\<open>activeServer\<close> then finds. The empty run is initialisation; a run
  with one more event is a transition.
\<close>

theorem active_in_registry:
  "servers (run_events (initialModel srvs) evs) = srvs \<and>
   (activeName (run_events (initialModel srvs) evs) \<noteq> [] \<longrightarrow>
      (\<exists>s. activeServer (run_events (initialModel srvs) evs) = Some s \<and> s \<in> set srvs \<and>
           Name s = activeName (run_events (initialModel srvs) evs)))"
proof -
  let ?m0 = "initialModel srvs"
  have i: "l_items (list_w ?m0) = servers ?m0" by (simp add: initialModel_fields)
  have a: "activeName ?m0 = [] \<or> activeName ?m0 \<in> Name ` set (servers ?m0)"
    by (cases srvs) (simp_all add: initialModel_fields)
  from run_events_inv [OF i a, of evs]
  have r: "servers (run_events ?m0 evs) = srvs"
      "activeName (run_events ?m0 evs) = [] \<or> activeName (run_events ?m0 evs) \<in> Name ` set srvs"
    by (simp_all add: initialModel_fields)
  show ?thesis
    using r activeServer_found [of "run_events ?m0 evs"] by auto
qed

theorem active_in_registry_witness:
  "activeName (run_events (initialModel [srvA, srvB])
                 [(env0, KeyMsg ''tab''), (env0, KeyMsg ''ctrl+s''), (env0, OtherMsg 0)]) \<noteq> [] \<and>
   activeServer (run_events (initialModel [srvA, srvB])
                   [(env0, KeyMsg ''tab''), (env0, KeyMsg ''ctrl+s''), (env0, OtherMsg 0)])
     = Some srvB"
proof -
  let ?m = "run_events (initialModel [srvA, srvB])
              [(env0, KeyMsg ''tab''), (env0, KeyMsg ''ctrl+s''), (env0, OtherMsg 0)]"
  have n: "activeName ?m = ''B''"
    by (simp add: initialModel_def keyTab_def containerKey_def forward_def activeServer_def
          pushLog_def setStatus_def maxLines_def l_Items_def l_Index_def l_Select_def
          l_SelectedItem_def srvA_def srvB_def env0_def Let_def)
  then have h: "activeName ?m \<noteq> []" by simp
  from h active_in_registry [where srvs = "[srvA, srvB]" and
         evs = "[(env0, KeyMsg ''tab''), (env0, KeyMsg ''ctrl+s''), (env0, OtherMsg 0)]"]
  obtain s where s: "activeServer ?m = Some s" "s \<in> set [srvA, srvB]" "Name s = activeName ?m"
    by blast
  from s(2) s(3) n have "s = srvB" by (auto simp: srvA_def)
  with s(1) h show ?thesis by simp
qed

subsection \<open>Launched container executors\<close>

lemma containerKey_cmd:
  "snd (containerKey e m doing status action) = DockerActionCmd s a \<Longrightarrow>
   activeServer m = Some s \<and> Container s \<noteq> [] \<and> a = action"
  by (auto simp: containerKey_def split: option.splits if_splits)

lemma Update_docker_cmd:
  "snd (Update e m x) = DockerActionCmd s a \<Longrightarrow>
   activeServer m = Some s \<and> Container s \<noteq> [] \<and>
   a \<in> {''start'', ''stop'', ''restart'', ''status''}"
proof (cases x)
  case (KeyMsg k)
  assume h: "snd (Update e m x) = DockerActionCmd s a"
  show ?thesis
    using h KeyMsg
    by (auto simp: keyTab_def keyEnter_def forward_def Let_def
             split: if_splits option.splits dest!: containerKey_cmd)
qed (auto simp: forward_def Let_def split: option.splits)

lemma dockerAction_runs:
  "Container s \<noteq> [] \<Longrightarrow> a \<in> {''start'', ''stop'', ''restart'', ''status''} \<Longrightarrow>
   length (snd (dockerAction run s a)) = 1 \<and>
   d_err (fst (dockerAction run s a)) = snd (run ''docker'' (snd (hd (snd (dockerAction run s a)))))"
  by (auto simp: dockerAction_def runDocker_def split: prod.splits)

text \<open>
  C10. Whenever \<^verbatim>\<open>Update\<close> returns a container command, the descriptor it captured is
  the active registry entry, its container reference is not empty and the action is one
  of the four known ones. Executing the command therefore passes both early returns of
  the executor: the external process is run exactly once, and the error of the result is
  the one that process returned.
\<close>

theorem launched_container_configured:
  assumes "snd (Update e m x) = DockerActionCmd s a"
  shows "Container s \<noteq> [] \<and> activeServer m = Some s \<and> s \<in> set (servers m) \<and>
         a \<in> {''start'', ''stop'', ''restart'', ''status''} \<and>
         length (launched run (snd (Update e m x))) = 1 \<and>
         d_err (fst (dockerAction run s a))
           = snd (run ''docker'' (snd (hd (snd (dockerAction run s a)))))"
proof -
  note c = Update_docker_cmd [OF assms]
  have r: "length (snd (dockerAction run s a)) = 1 \<and>
           d_err (fst (dockerAction run s a))
             = snd (run ''docker'' (snd (hd (snd (dockerAction run s a)))))"
    using c by (intro dockerAction_runs) simp_all
  have i: "s \<in> set (servers m)"
    using c activeServer_Some [of m s] by simp
  show ?thesis
    using c r i by (simp add: assms)
qed

theorem launched_container_configured_witness:
  "snd (Update env0 (initialModel [srvB]) (KeyMsg ''ctrl+r'')) = DockerActionCmd srvB ''restart'' \<and>
   Container srvB \<noteq> [] \<and>
   length (launched noExec (snd (Update env0 (initialModel [srvB]) (KeyMsg ''ctrl+r'')))) = 1"
proof -
  have h: "snd (Update env0 (initialModel [srvB]) (KeyMsg ''ctrl+r''))
             = DockerActionCmd srvB ''restart''"
    by (simp add: containerKey_def activeServer_def initialModel_fields srvB_def)
  from launched_container_configured [OF h, where run = noExec]
  have "Container srvB \<noteq> []"
    and "length (launched noExec (snd (Update env0 (initialModel [srvB]) (KeyMsg ''ctrl+r'')))) = 1"
    by blast+
  with h show ?thesis by blast
qed

end
